theory Spec2Isabelle
  imports Complex_Main
begin

section \<open>Data model of pose\_server.py\<close>

text \<open>
  Python floats (time stamps, coordinates, durations) are modelled as reals; Python's
  unbounded ints as \<open>int\<close>. Exceptions are values of \<open>py_error\<close>, carried in the left
  summand of a result.
\<close>

datatype py_error = IndexError | KeyError | ValueError | ConnectionClosed

text \<open>A MediaPipe landmark as the server reads it: the attributes x, y, z, visibility.\<close>

record landmark =
  lm_x :: real
  lm_y :: real
  lm_z :: real
  lm_visibility :: "real option"

text \<open>One entry of the list built by \<open>landmarks_to_normalized_list\<close>.\<close>

record lm_entry =
  entry_id :: nat
  entry_x :: real
  entry_y :: real
  entry_z :: real
  entry_visibility :: "real option"

text \<open>The values stored in the shared dict \<open>last_payload\<close>.\<close>

datatype pvalue = PNone | PFloat real | PInt int | PLandmarks "lm_entry list"

type_synonym payload = "string \<rightharpoonup> pvalue"

definition TARGET_FPS :: real where
  "TARGET_FPS = 30"

definition FRAME_DELAY :: real where
  "FRAME_DELAY = 1 / TARGET_FPS"

section \<open>Landmark helpers\<close>

definition landmarks_to_normalized_list :: "landmark list \<Rightarrow> lm_entry list" where
  "landmarks_to_normalized_list landmarks =
     map (\<lambda>(idx, lm). \<lparr>entry_id = idx, entry_x = lm_x lm, entry_y = lm_y lm,
                         entry_z = lm_z lm, entry_visibility = lm_visibility lm\<rparr>)
         (enumerate 0 landmarks)"

text \<open>Python indexing \<open>xs[i]\<close>: a negative index counts from the end, out of range raises.\<close>

definition getitem :: "'a list \<Rightarrow> int \<Rightarrow> py_error + 'a" where
  "getitem xs i =
     (if 0 \<le> i \<and> i < int (length xs) then Inr (xs ! nat i)
      else if i < 0 \<and> - int (length xs) \<le> i then Inr (xs ! nat (int (length xs) + i))
      else Inl IndexError)"

text \<open>The body of the \<open>try\<close> in \<open>compute_mid_hip_z\<close>: either index may raise.\<close>

definition mid_hip_z_try :: "landmark list \<Rightarrow> py_error + real" where
  "mid_hip_z_try landmarks =
     (case getitem landmarks 23 of
        Inl e \<Rightarrow> Inl e
      | Inr a \<Rightarrow>
          (case getitem landmarks 24 of
             Inl e \<Rightarrow> Inl e
           | Inr b \<Rightarrow> Inr ((lm_z a + lm_z b) / 2)))"

text \<open>\<open>except Exception: return 0.0\<close> turns every error of the body into 0.0.\<close>

definition compute_mid_hip_z :: "landmark list \<Rightarrow> real" where
  "compute_mid_hip_z landmarks =
     (case mid_hip_z_try landmarks of Inr v \<Rightarrow> v | Inl e \<Rightarrow> 0)"

section \<open>The shared payload and its reader\<close>

text \<open>\<open>main\<close> creates the dict with two keys, both None.\<close>

definition initial_payload :: payload where
  "initial_payload = [''timestamp'' \<mapsto> PNone, ''landmarks'' \<mapsto> PNone]"

text \<open>
  \<open>get_payload\<close>: \<open>last_payload["landmarks"]\<close> raises KeyError on a missing key; a stored
  None gives None; otherwise \<open>dict(last_payload)\<close>, a copy with the same keys and values.
\<close>

definition get_payload :: "payload \<Rightarrow> py_error + payload option" where
  "get_payload last_payload =
     (case last_payload ''landmarks'' of
        None \<Rightarrow> Inl KeyError
      | Some v \<Rightarrow> if v = PNone then Inr None else Inr (Some last_payload))"

text \<open>
  The same read as a state transformer on the shared dict: the result and the dict it
  leaves behind. The source performs no store in \<open>get_payload\<close>.
\<close>

definition get_payload_st :: "payload \<Rightarrow> (py_error + payload option) \<times> payload" where
  "get_payload_st last_payload = (get_payload last_payload, last_payload)"

text \<open>\<open>n\<close> consecutive reads with no store in between: the results, and the final dict.\<close>

fun reads :: "nat \<Rightarrow> payload \<Rightarrow> (py_error + payload option) list \<times> payload" where
  "reads 0 p = ([], p)"
| "reads (Suc n) p =
     (let (r, p') = get_payload_st p; (rs, p'') = reads n p' in (r # rs, p''))"

section \<open>The producer: \<open>camera_worker\<close>\<close>

text \<open>
  What one pass of the \<open>while\<close> loop receives from outside: whether another thread has
  set the stop event by the time of the loop test, the result of \<open>cap.read()\<close>, the frame
  shape, the result of \<open>pose.process\<close>, the five readings of \<open>time.time()\<close> in program
  order, and the value returned by \<open>cv2.waitKey(1)\<close>. \<open>results.pose_landmarks\<close> is None
  or a landmark list message; \<open>if results.pose_landmarks\<close> takes the first for false and
  the second for true. The display calls touch neither the dict nor the stop event; of
  them only the exception of \<open>draw_landmarks\<close> is kept (below), the others are taken to
  return, and of \<open>cv2.waitKey(1)\<close> only the key it returns is kept.
\<close>

record frame_in =
  stop_req :: bool
  ret :: bool
  frame_w :: int
  frame_h :: int
  pose_landmarks :: "landmark list option"
  t0 :: real
  t_stamp :: real
  t_fps :: real
  t_prev :: real
  t_end :: real
  key :: int

text \<open>
  The stores of lines 103-108 (a detection) or of line 110 (no detection), in program
  order. \<open>prev\<close> is the time recorded at the end of the previous pass.
\<close>

definition snapshot_stores :: "frame_in \<Rightarrow> real \<Rightarrow> (string \<times> pvalue) list" where
  "snapshot_stores i prev =
     (case pose_landmarks i of
        Some lm_list \<Rightarrow>
          (let mid_hip_z = compute_mid_hip_z lm_list;
               normalized_landmarks = landmarks_to_normalized_list lm_list
           in [(''timestamp'', PFloat (t_stamp i)),
               (''landmarks'', PLandmarks normalized_landmarks),
               (''image_w'', PInt (frame_w i)),
               (''image_h'', PInt (frame_h i)),
               (''mid_hip_z'', PFloat mid_hip_z),
               (''fps'', PFloat (1 / max (1 / 10000) (t_fps i - prev)))])
      | None \<Rightarrow> [(''landmarks'', PNone)])"

definition store :: "payload \<Rightarrow> string \<times> pvalue \<Rightarrow> payload" where
  "store p kv = p(fst kv \<mapsto> snd kv)"

definition apply_stores :: "payload \<Rightarrow> (string \<times> pvalue) list \<Rightarrow> payload" where
  "apply_stores p kvs = foldl store p kvs"

text \<open>
  The pacing of the producer: \<open>if to_sleep > 0: time.sleep(to_sleep)\<close>. The result lists
  the calls of \<open>time.sleep\<close> with their durations.
\<close>

definition pace_camera :: "real \<Rightarrow> real list" where
  "pace_camera elapsed =
     (let to_sleep = FRAME_DELAY - elapsed in if to_sleep > 0 then [to_sleep] else [])"

text \<open>
  The state of the producer: the shared dict, the shared stop event, the local \<open>prev\<close>,
  a log of the executed update blocks (each the list of its stores), a log of the sleeps,
  and whether the \<open>finally\<close> block has released the camera.
\<close>

record cam_state =
  last_payload :: payload
  stop_event :: bool
  prev :: real
  updates :: "(string \<times> pvalue) list list"
  sleeps :: "real list"
  released :: bool

text \<open>
  \<open>mp_drawing.draw_landmarks\<close> with \<open>mp_pose.POSE_CONNECTIONS\<close>, called at lines 114-121
  when there is a detection. It is a function of the MediaPipe library: it raises
  ValueError when a connection names a landmark index that the list does not have, and
  the connections of the pose model reach index 32.
\<close>

definition draw_landmarks :: "landmark list \<Rightarrow> py_error + unit" where
  "draw_landmarks lm_list = (if length lm_list < 33 then Inl ValueError else Inr ())"

text \<open>
  How one pass ends: by \<open>break\<close>, by reaching the end of the body, or by an exception
  that leaves the loop.
\<close>

datatype loop_step = Break cam_state | Continue cam_state | Raised py_error cam_state

fun state_of :: "loop_step \<Rightarrow> cam_state" where
  "state_of (Break s) = s"
| "state_of (Continue s) = s"
| "state_of (Raised e s) = s"

text \<open>
  The loop body, lines 85-138. \<open>ord('q')\<close> is 113 and \<open>0xFF\<close> is 255. An exception of
  \<open>draw_landmarks\<close> comes after the stores and before \<open>prev\<close> is set, the sleep and the
  key test.
\<close>

definition camera_iter :: "frame_in \<Rightarrow> cam_state \<Rightarrow> loop_step" where
  "camera_iter i s =
     (if \<not> ret i then Break s
      else
        let sts = snapshot_stores i (prev s);
            s1 = s\<lparr>last_payload := apply_stores (last_payload s) sts,
                   updates := updates s @ [sts]\<rparr>
        in case (case pose_landmarks i of
                   None \<Rightarrow> Inr ()
                 | Some lm_list \<Rightarrow> draw_landmarks lm_list) of
             Inl e \<Rightarrow> Raised e s1
           | Inr u \<Rightarrow>
               let s2 = s1\<lparr>prev := t_prev i\<rparr>;
                   s3 = s2\<lparr>sleeps := sleeps s2 @ pace_camera (t_end i - t0 i)\<rparr>
               in if and (key i) 255 = 113 then Break (s3\<lparr>stop_event := True\<rparr>)
                  else Continue s3)"

text \<open>
  The \<open>while not stop_event.is_set()\<close> loop over a script of inputs. The loop may run for
  ever; a script that ends while the loop is still running gives \<open>None\<close>. Otherwise the
  result is the state in which the loop is left, with the exception that left it, if any.
\<close>

fun camera_loop :: "frame_in list \<Rightarrow> cam_state \<Rightarrow> (py_error option \<times> cam_state) option" where
  "camera_loop [] s = (if stop_event s then Some (None, s) else None)"
| "camera_loop (i # rest) s =
     (if stop_event s \<or> stop_req i then Some (None, s\<lparr>stop_event := True\<rparr>)
      else case camera_iter i s of
             Break s' \<Rightarrow> Some (None, s')
           | Continue s' \<Rightarrow> camera_loop rest s'
           | Raised e s' \<Rightarrow> Some (Some e, s'))"

text \<open>
  \<open>camera_worker\<close>: \<open>opened\<close> is \<open>cap.isOpened()\<close>, \<open>t_start\<close> the first reading of the
  clock (line 82). The \<open>finally\<close> block releases the camera and sets the stop event, also
  when an exception left the loop; the exception then leaves the function.
\<close>

definition init_state :: "payload \<Rightarrow> bool \<Rightarrow> real \<Rightarrow> cam_state" where
  "init_state payload0 stop0 t_start =
     \<lparr>last_payload = payload0, stop_event = stop0, prev = t_start,
      updates = [], sleeps = [], released = False\<rparr>"

definition camera_worker ::
  "payload \<Rightarrow> bool \<Rightarrow> bool \<Rightarrow> real \<Rightarrow> frame_in list \<Rightarrow>
   (py_error option \<times> cam_state) option" where
  "camera_worker payload0 stop0 opened t_start script =
     (let s0 = init_state payload0 stop0 t_start
      in if \<not> opened then Some (None, s0\<lparr>stop_event := True\<rparr>)
         else map_option (\<lambda>(e, s'). (e, s'\<lparr>released := True, stop_event := True\<rparr>))
                (camera_loop script s0))"

section \<open>The registry and the broadcaster\<close>

type_synonym ws = nat

text \<open>
  The global set \<open>CONNECTED\<close>, kept as a duplicate-free list whose order stands for the
  order in which \<open>list(CONNECTED)\<close> enumerates it. \<open>ws_handler\<close> adds the connection on
  entry and discards it in its \<open>finally\<close> block.
\<close>

datatype ws_event = Connect ws | Disconnect ws

fun ws_handler_event :: "ws list \<Rightarrow> ws_event \<Rightarrow> ws list" where
  "ws_handler_event CONNECTED (Connect w) =
     (if w \<in> set CONNECTED then CONNECTED else CONNECTED @ [w])"
| "ws_handler_event CONNECTED (Disconnect w) = removeAll w CONNECTED"

text \<open>
  What \<open>ws.send(message)\<close> does for a connection: the send completes, the call itself
  raises (caught by \<open>except Exception: pass\<close>), or the awaited send raises.
\<close>

datatype send_outcome = Sent | CallRaises | AwaitRaises

text \<open>
  \<open>asyncio.gather\<close>: with \<open>return_exceptions=True\<close> every awaitable is run and an
  exception is returned as a result; without it the first exception propagates.
\<close>

definition gather :: "bool \<Rightarrow> send_outcome list \<Rightarrow> py_error + send_outcome list" where
  "gather return_exceptions rs =
     (if return_exceptions then Inr rs
      else if list_ex (\<lambda>r. r \<noteq> Sent) rs then Inl ConnectionClosed else Inr rs)"

text \<open>
  Lines 156-165: the calls \<open>ws.send(message)\<close> made, and the sends that completed.
\<close>

definition fan_out ::
  "string \<Rightarrow> (ws \<Rightarrow> send_outcome) \<Rightarrow> ws list \<Rightarrow>
   py_error + (ws \<times> string) list \<times> (ws \<times> string) list" where
  "fan_out message outcome webs =
     (if webs \<noteq> [] then
        let calls = map (\<lambda>w. (w, message)) webs;
            send_coros = filter (\<lambda>w. outcome w \<noteq> CallRaises) webs
        in if send_coros \<noteq> [] then
             (case gather True (map outcome send_coros) of
                Inl e \<Rightarrow> Inl e
              | Inr results \<Rightarrow>
                  Inr (calls, map (\<lambda>w. (w, message))
                                (filter (\<lambda>w. outcome w = Sent) send_coros)))
           else Inr (calls, [])
      else Inr ([], []))"

text \<open>
  The pacing of the broadcaster, lines 167-172: both branches sleep. The result lists the
  calls of \<open>asyncio.sleep\<close> with their durations.
\<close>

definition pace_broadcast :: "real \<Rightarrow> real list" where
  "pace_broadcast elapsed =
     (let to_sleep = FRAME_DELAY - elapsed in if to_sleep > 0 then [to_sleep] else [1 / 1000])"

text \<open>
  What one tick receives from outside: the contents of the shared dict at the time of the
  read, what each send does, and the two readings of the clock.
\<close>

record tick_in =
  mailbox :: payload
  send_result :: "ws \<Rightarrow> send_outcome"
  t_start :: real
  t_now :: real

text \<open>
  What one tick does: the outputs of \<open>json.dumps\<close>, the calls of \<open>ws.send\<close>, the sends that
  completed, the sleeps, and the registry it leaves behind.
\<close>

record tick_result =
  serialized :: "string list"
  dispatched :: "(ws \<times> string) list"
  delivered :: "(ws \<times> string) list"
  slept :: "real list"
  connected_after :: "ws list"

text \<open>\<open>payload.get("landmarks") is None\<close>: a missing key reads as None.\<close>

definition landmarks_is_None :: "payload \<Rightarrow> bool" where
  "landmarks_is_None payload =
     (case payload ''landmarks'' of None \<Rightarrow> True | Some v \<Rightarrow> v = PNone)"

text \<open>
  One pass of the loop of \<open>broadcast_loop\<close>, lines 149-172. \<open>dumps\<close> stands for
  \<open>json.dumps\<close> and \<open>get_payload_fn\<close> for the function passed in; an exception of
  \<open>get_payload_fn\<close> is not caught.
\<close>

definition broadcast_tick ::
  "(payload \<Rightarrow> string) \<Rightarrow> (payload \<Rightarrow> py_error + payload option) \<Rightarrow>
   tick_in \<Rightarrow> ws list \<Rightarrow> py_error + tick_result" where
  "broadcast_tick dumps get_payload_fn inp CONNECTED =
     (case get_payload_fn (mailbox inp) of
        Inl e \<Rightarrow> Inl e
      | Inr None \<Rightarrow>
          Inr \<lparr>serialized = [], dispatched = [], delivered = [],
               slept = [1 / 1000] @ pace_broadcast (t_now inp - t_start inp),
               connected_after = CONNECTED\<rparr>
      | Inr (Some payload) \<Rightarrow>
          if landmarks_is_None payload then
            Inr \<lparr>serialized = [], dispatched = [], delivered = [],
                 slept = [1 / 1000] @ pace_broadcast (t_now inp - t_start inp),
                 connected_after = CONNECTED\<rparr>
          else
            (let message = dumps payload; webs = CONNECTED
             in case fan_out message (send_result inp) webs of
                  Inl e \<Rightarrow> Inl e
                | Inr (calls, done) \<Rightarrow>
                    Inr \<lparr>serialized = [message], dispatched = calls, delivered = done,
                         slept = pace_broadcast (t_now inp - t_start inp),
                         connected_after = CONNECTED\<rparr>))"

text \<open>
  The loop over a script of ticks. Each script entry carries whether the stop event is
  set at the loop test and the handler events that happened since the previous tick.
  The result is the log of the ticks run, or the exception that ended the loop.
\<close>

fun broadcast_loop ::
  "(payload \<Rightarrow> string) \<Rightarrow> (payload \<Rightarrow> py_error + payload option) \<Rightarrow>
   (bool \<times> ws_event list \<times> tick_in) list \<Rightarrow> ws list \<Rightarrow> py_error + tick_result list" where
  "broadcast_loop dumps get_payload_fn [] CONNECTED = Inr []"
| "broadcast_loop dumps get_payload_fn ((stop, evs, inp) # rest) CONNECTED =
     (if stop then Inr []
      else
        case broadcast_tick dumps get_payload_fn inp (foldl ws_handler_event CONNECTED evs) of
          Inl e \<Rightarrow> Inl e
        | Inr r \<Rightarrow>
            (case broadcast_loop dumps get_payload_fn rest (connected_after r) of
               Inl e \<Rightarrow> Inl e
             | Inr rs \<Rightarrow> Inr (r # rs)))"

section \<open>Writer and reader on the shared dict\<close>

text \<open>
  The camera thread performs its stores one at a time; a reader on the other thread may
  run between any two of them. A schedule says whose turn it is; the reader's
  \<open>get_payload\<close> is taken as one step.
\<close>

datatype turn = WriterStep | ReaderStep

fun run_schedule ::
  "turn list \<Rightarrow> (string \<times> pvalue) list \<Rightarrow> payload \<Rightarrow> (py_error + payload option) list" where
  "run_schedule [] pending p = []"
| "run_schedule (WriterStep # sch) [] p = run_schedule sch [] p"
| "run_schedule (WriterStep # sch) (kv # pending) p = run_schedule sch pending (store p kv)"
| "run_schedule (ReaderStep # sch) pending p = get_payload p # run_schedule sch pending p"

text \<open>
  A read is consistent with a list of producer passes (each with the \<open>prev\<close> it started
  from) when it is empty or is exactly the dict written by one of them.
\<close>

definition consistent_read ::
  "(frame_in \<times> real) list \<Rightarrow> (py_error + payload option) \<Rightarrow> bool" where
  "consistent_read passes r =
     (r = Inr None \<or>
      list_ex (\<lambda>(i, pv). r = Inr (Some (apply_stores Map.empty (snapshot_stores i pv)))) passes)"

section \<open>Auxiliary notions and example inputs\<close>

text \<open>
  A pass in which \<open>draw_landmarks\<close> is not called or returns, and a pass of the producer
  loop that runs to its end and goes on to the next one.
\<close>

definition draw_completes :: "frame_in \<Rightarrow> bool" where
  "draw_completes i =
     (case pose_landmarks i of None \<Rightarrow> True | Some lm_list \<Rightarrow> 33 \<le> length lm_list)"

definition iter_continues :: "frame_in \<Rightarrow> bool" where
  "iter_continues i =
     (\<not> stop_req i \<and> ret i \<and> draw_completes i \<and> and (key i) 255 \<noteq> 113)"

text \<open>The state after a run of passes, each taken to its end.\<close>

definition run_passes :: "frame_in list \<Rightarrow> cam_state \<Rightarrow> cam_state" where
  "run_passes pre s = foldl (\<lambda>s i. state_of (camera_iter i s)) s pre"

text \<open>
  Example inputs: a pose of 33 landmarks, two passes with a detection, one without, one
  whose \<open>cap.read()\<close> fails; \<open>cv2.waitKey\<close> returns -1 when no key is pressed.
\<close>

definition example_pose :: "real \<Rightarrow> landmark list" where
  "example_pose z = replicate 33 \<lparr>lm_x = 1 / 2, lm_y = 1 / 2, lm_z = z, lm_visibility = Some 1\<rparr>"

definition frame_A :: frame_in where
  "frame_A = \<lparr>stop_req = False, ret = True, frame_w = 640, frame_h = 480,
              pose_landmarks = Some (example_pose (- 1 / 4)),
              t0 = 0, t_stamp = 1 / 100, t_fps = 1 / 100, t_prev = 1 / 50, t_end = 1 / 50,
              key = - 1\<rparr>"

definition frame_B :: frame_in where
  "frame_B = \<lparr>stop_req = False, ret = True, frame_w = 640, frame_h = 480,
              pose_landmarks = Some (example_pose (- 1 / 2)),
              t0 = 1 / 30, t_stamp = 1 / 25, t_fps = 1 / 25, t_prev = 1 / 20, t_end = 1 / 20,
              key = - 1\<rparr>"

definition frame_none :: frame_in where
  "frame_none = \<lparr>stop_req = False, ret = True, frame_w = 640, frame_h = 480,
                 pose_landmarks = None,
                 t0 = 1 / 30, t_stamp = 1 / 25, t_fps = 1 / 25, t_prev = 1 / 20, t_end = 1 / 20,
                 key = - 1\<rparr>"

definition frame_fail :: frame_in where
  "frame_fail = \<lparr>stop_req = False, ret = False, frame_w = 0, frame_h = 0,
                 pose_landmarks = None,
                 t0 = 1 / 15, t_stamp = 1 / 15, t_fps = 1 / 15, t_prev = 1 / 15, t_end = 1 / 15,
                 key = - 1\<rparr>"

text \<open>A pass with a detection that takes 100 ms, over the budget of 1/30 s.\<close>

definition frame_slow :: frame_in where
  "frame_slow = \<lparr>stop_req = False, ret = True, frame_w = 640, frame_h = 480,
                 pose_landmarks = Some (example_pose (- 1 / 4)),
                 t0 = 0, t_stamp = 9 / 100, t_fps = 9 / 100, t_prev = 1 / 10, t_end = 1 / 10,
                 key = - 1\<rparr>"

text \<open>The shared dict after the pass \<open>frame_A\<close>, started from the initial dict.\<close>

definition payload_A :: payload where
  "payload_A = apply_stores initial_payload (snapshot_stores frame_A 0)"

text \<open>The producer state after the pass \<open>frame_A\<close>.\<close>

definition state_A :: cam_state where
  "state_A = state_of (camera_iter frame_A (init_state initial_payload False 0))"

text \<open>A serializer for the examples: every payload gives the same text.\<close>

definition example_dumps :: "payload \<Rightarrow> string" where
  "example_dumps p = ''msg''"

text \<open>A tick in which the send to connection 2 fails and every other send completes.\<close>

definition example_tick :: tick_in where
  "example_tick = \<lparr>mailbox = payload_A,
                   send_result = (\<lambda>w. if w = 2 then AwaitRaises else Sent),
                   t_start = 0, t_now = 1 / 100\<rparr>"

text \<open>A tick with a payload to send that takes 100 ms.\<close>

definition slow_tick :: tick_in where
  "slow_tick = \<lparr>mailbox = payload_A, send_result = (\<lambda>w. Sent),
                t_start = 0, t_now = 1 / 10\<rparr>"

text \<open>A tick that finds the dict as \<open>main\<close> created it.\<close>

definition idle_tick :: tick_in where
  "idle_tick = \<lparr>mailbox = initial_payload, send_result = (\<lambda>w. Sent),
                t_start = 0, t_now = 1 / 100\<rparr>"

section \<open>Helper lemmas\<close>

lemma compute_mid_hip_z_example: "compute_mid_hip_z (example_pose z) = z"
  by (simp add: compute_mid_hip_z_def mid_hip_z_try_def getitem_def Let_def example_pose_def)

lemma payload_A_landmarks:
  "payload_A ''landmarks'' =
     Some (PLandmarks (landmarks_to_normalized_list (example_pose (- 1 / 4))))"
  by (simp add: payload_A_def apply_stores_def snapshot_stores_def frame_A_def store_def Let_def)

lemma get_payload_A: "get_payload payload_A = Inr (Some payload_A)"
  by (simp add: get_payload_def payload_A_landmarks)

lemma payload_A_not_None: "\<not> landmarks_is_None payload_A"
  by (simp add: landmarks_is_None_def payload_A_landmarks)

lemma payload_A_whole:
  "payload_A = apply_stores Map.empty (snapshot_stores frame_A 0)"
  by (rule ext)
     (simp add: payload_A_def initial_payload_def apply_stores_def snapshot_stores_def
        frame_A_def store_def Let_def)

lemma last_payload_state_A: "last_payload state_A = payload_A"
  by (simp add: state_A_def camera_iter_def frame_A_def init_state_def Let_def payload_A_def
      draw_landmarks_def example_pose_def)

text \<open>A read that falls between two passes sees the whole dict of the earlier pass.\<close>

lemma read_between_passes_consistent:
  "run_schedule (replicate 6 WriterStep @ [ReaderStep])
     (snapshot_stores frame_A 0 @ snapshot_stores frame_B (t_prev frame_A)) initial_payload
     = [Inr (Some payload_A)]
   \<and> consistent_read [(frame_A, 0), (frame_B, t_prev frame_A)] (Inr (Some payload_A))"
proof -
  have "run_schedule (replicate 6 WriterStep @ [ReaderStep])
     (snapshot_stores frame_A 0 @ snapshot_stores frame_B (t_prev frame_A)) initial_payload
     = [get_payload payload_A]"
    by (simp add: numeral_eq_Suc snapshot_stores_def frame_A_def frame_B_def Let_def
        payload_A_def apply_stores_def)
  moreover have "consistent_read [(frame_A, 0), (frame_B, t_prev frame_A)] (Inr (Some payload_A))"
    using payload_A_whole by (simp add: consistent_read_def)
  ultimately show ?thesis by (simp add: get_payload_A)
qed

lemma gather_return_exceptions: "gather True rs = Inr rs"
  by (simp add: gather_def)

text \<open>With \<open>return_exceptions=True\<close> the fan-out never raises, whatever the sends do.\<close>

lemma fan_out_result:
  "fan_out message outcome webs =
     Inr (map (\<lambda>w. (w, message)) webs,
          map (\<lambda>w. (w, message)) (filter (\<lambda>w. outcome w = Sent) webs))"
proof -
  have f: "filter (\<lambda>w. outcome w \<noteq> CallRaises \<and> outcome w = Sent) webs
         = filter (\<lambda>w. outcome w = Sent) webs"
    by (rule filter_cong) auto
  have e: "filter (\<lambda>w. outcome w \<noteq> CallRaises) webs = []
           \<Longrightarrow> filter (\<lambda>w. outcome w = Sent) webs = []"
    by (induction webs) (auto split: if_splits)
  show ?thesis
    by (cases "webs = []") (auto simp: fan_out_def Let_def gather_return_exceptions f e)
qed

lemma tick_idle:
  assumes "get_payload_fn (mailbox inp) = Inr r"
    and "r = None \<or> (\<exists>p. r = Some p \<and> landmarks_is_None p)"
  shows "\<exists>res. broadcast_tick dumps get_payload_fn inp CONNECTED = Inr res \<and>
           serialized res = [] \<and> dispatched res = [] \<and> delivered res = [] \<and>
           connected_after res = CONNECTED"
  using assms by (auto simp: broadcast_tick_def)

lemma tick_send:
  assumes "get_payload_fn (mailbox inp) = Inr (Some p)" and "\<not> landmarks_is_None p"
  shows "\<exists>res. broadcast_tick dumps get_payload_fn inp CONNECTED = Inr res \<and>
           serialized res = [dumps p] \<and>
           dispatched res = map (\<lambda>w. (w, dumps p)) CONNECTED \<and>
           delivered res =
             map (\<lambda>w. (w, dumps p)) (filter (\<lambda>w. send_result inp w = Sent) CONNECTED) \<and>
           connected_after res = CONNECTED"
  using assms by (simp add: broadcast_tick_def Let_def fan_out_result)

lemma tick_total:
  assumes "get_payload_fn (mailbox inp) = Inr r"
  shows "\<exists>res. broadcast_tick dumps get_payload_fn inp CONNECTED = Inr res \<and>
           connected_after res = CONNECTED"
proof (cases "r = None \<or> (\<exists>p. r = Some p \<and> landmarks_is_None p)")
  case True
  with tick_idle[of get_payload_fn inp r dumps CONNECTED] assms show ?thesis by blast
next
  case False
  then obtain p where "r = Some p" "\<not> landmarks_is_None p" by (cases r) auto
  with tick_send[of get_payload_fn inp p dumps CONNECTED] assms show ?thesis by blast
qed

lemma broadcast_loop_total:
  assumes "\<forall>x \<in> set script. \<exists>r. get_payload_fn (mailbox (snd (snd x))) = Inr r"
  shows "\<exists>rs. broadcast_loop dumps get_payload_fn script CONNECTED = Inr rs"
  using assms
proof (induction script arbitrary: CONNECTED)
  case Nil
  then show ?case by simp
next
  case (Cons x script)
  obtain stop evs inp where x: "x = (stop, evs, inp)" by (cases x)
  from Cons.prems x obtain r where r: "get_payload_fn (mailbox inp) = Inr r" by auto
  from tick_total[of get_payload_fn inp r dumps "foldl ws_handler_event CONNECTED evs"] r
  obtain res where
    res: "broadcast_tick dumps get_payload_fn inp (foldl ws_handler_event CONNECTED evs) = Inr res"
    by blast
  from Cons.prems
  have "\<forall>x \<in> set script. \<exists>r. get_payload_fn (mailbox (snd (snd x))) = Inr r" by simp
  from Cons.IH[OF this] obtain rs where
    "broadcast_loop dumps get_payload_fn script (connected_after res) = Inr rs" by blast
  with res x show ?case by simp
qed

lemma example_tick_result:
  "broadcast_tick example_dumps get_payload example_tick [1, 2, 3] =
     Inr \<lparr>serialized = [''msg''],
          dispatched = [(1, ''msg''), (2, ''msg''), (3, ''msg'')],
          delivered = [(1, ''msg''), (3, ''msg'')],
          slept = [7 / 300], connected_after = [1, 2, 3]\<rparr>"
  by (simp add: broadcast_tick_def example_tick_def get_payload_A payload_A_not_None Let_def
      fan_out_result example_dumps_def pace_broadcast_def FRAME_DELAY_def TARGET_FPS_def)

lemma idle_tick_result:
  "broadcast_tick example_dumps get_payload idle_tick [1, 2, 3] =
     Inr \<lparr>serialized = [], dispatched = [], delivered = [],
          slept = [1 / 1000, 7 / 300], connected_after = [1, 2, 3]\<rparr>"
  by (simp add: broadcast_tick_def idle_tick_def get_payload_def initial_payload_def
      pace_broadcast_def FRAME_DELAY_def TARGET_FPS_def Let_def)

text \<open>What a pass whose read succeeded has stored, whether or not the drawing raises.\<close>

lemma camera_iter_detection:
  assumes "ret i" and "pose_landmarks i = Some lms"
  shows "last_payload (state_of (camera_iter i s)) =
           (last_payload s)(''timestamp'' \<mapsto> PFloat (t_stamp i),
              ''landmarks'' \<mapsto> PLandmarks (landmarks_to_normalized_list lms),
              ''image_w'' \<mapsto> PInt (frame_w i),
              ''image_h'' \<mapsto> PInt (frame_h i),
              ''mid_hip_z'' \<mapsto> PFloat (compute_mid_hip_z lms),
              ''fps'' \<mapsto> PFloat (1 / max (1 / 10000) (t_fps i - prev s)))"
    and "updates (state_of (camera_iter i s)) =
           updates s @ [[(''timestamp'', PFloat (t_stamp i)),
              (''landmarks'', PLandmarks (landmarks_to_normalized_list lms)),
              (''image_w'', PInt (frame_w i)),
              (''image_h'', PInt (frame_h i)),
              (''mid_hip_z'', PFloat (compute_mid_hip_z lms)),
              (''fps'', PFloat (1 / max (1 / 10000) (t_fps i - prev s)))]]"
  using assms
  by (simp_all add: camera_iter_def Let_def snapshot_stores_def apply_stores_def store_def
      draw_landmarks_def)

lemma camera_iter_no_detection:
  assumes "ret i" and "pose_landmarks i = None"
  shows "last_payload (state_of (camera_iter i s)) = (last_payload s)(''landmarks'' \<mapsto> PNone)"
    and "updates (state_of (camera_iter i s)) = updates s @ [[(''landmarks'', PNone)]]"
  using assms
  by (simp_all add: camera_iter_def Let_def snapshot_stores_def apply_stores_def store_def)

lemma camera_iter_sleeps:
  assumes "ret i" and "draw_completes i"
  shows "sleeps (state_of (camera_iter i s)) =
           sleeps s @ (if t_end i - t0 i < FRAME_DELAY
                       then [FRAME_DELAY - (t_end i - t0 i)] else [])"
  using assms
  by (auto simp: camera_iter_def Let_def draw_completes_def draw_landmarks_def pace_camera_def
      split: option.splits)

lemma broadcast_tick_slept:
  assumes "get_payload_fn (mailbox inp) = Inr r"
  shows "\<exists>res. broadcast_tick dumps get_payload_fn inp CONNECTED = Inr res \<and>
           slept res =
             (case r of None \<Rightarrow> [1 / 1000]
              | Some p \<Rightarrow> if landmarks_is_None p then [1 / 1000] else [])
             @ (if t_now inp - t_start inp < FRAME_DELAY
                then [FRAME_DELAY - (t_now inp - t_start inp)] else [1 / 1000])"
  using assms
  by (cases r) (auto simp: broadcast_tick_def Let_def fan_out_result pace_broadcast_def)

text \<open>
  Passes that run to their end leave the loop running, and each of them appends one
  update block.
\<close>

lemma camera_loop_prefix:
  "\<not> stop_event s \<Longrightarrow> list_all iter_continues pre \<Longrightarrow>
   camera_loop (pre @ rest) s = camera_loop rest (run_passes pre s) \<and>
   \<not> stop_event (run_passes pre s) \<and>
   length (updates (run_passes pre s)) = length (updates s) + length pre"
proof (induction pre arbitrary: s)
  case Nil
  then show ?case by (simp add: run_passes_def)
next
  case (Cons i pre)
  define s1 where "s1 = state_of (camera_iter i s)"
  from Cons.prems have c: "camera_iter i s = Continue s1" and ns: "\<not> stop_event s1"
    and len: "length (updates s1) = length (updates s) + 1"
    by (auto simp: s1_def iter_continues_def draw_completes_def draw_landmarks_def
        camera_iter_def Let_def split: option.splits)
  from Cons.prems have "list_all iter_continues pre" by simp
  note ih = Cons.IH[OF ns this]
  from Cons.prems c have "camera_loop ((i # pre) @ rest) s = camera_loop (pre @ rest) s1"
    by (simp add: iter_continues_def)
  moreover have "run_passes (i # pre) s = run_passes pre s1"
    by (simp add: run_passes_def s1_def)
  ultimately show ?case using ih len by simp
qed

section \<open>The claims\<close>

subsection \<open>C1: reads of the shared dict under interleaving\<close>

text \<open>
  C1. For any interleaving of the single writer and the readers, every read returns
  either empty or a complete Snapshot whose fields all come from the same producer pass.
  The producer stores the six fields one after the other (lines 103-108) without a lock,
  under the comment "simple atomic replace", so a read between two stores breaks the
  property. Two schedules show it. In the first the producer has finished the pass
  \<open>frame_A\<close> and stored only the time stamp of the pass \<open>frame_B\<close> when the reader runs:
  the dict read carries the time stamp of B with the landmarks, image size, depth and
  rate of A, and is the dict of neither pass. In the second the reader runs after the
  first two stores of the very first detection: the dict read has no \<open>image_w\<close>,
  \<open>image_h\<close>, \<open>mid_hip_z\<close> or \<open>fps\<close> at all.
\<close>

theorem C1_torn_read:
  "run_schedule (replicate 7 WriterStep @ [ReaderStep])
     (snapshot_stores frame_A 0 @ snapshot_stores frame_B (t_prev frame_A)) initial_payload
     = [Inr (Some (payload_A(''timestamp'' \<mapsto> PFloat (t_stamp frame_B))))]
   \<and> \<not> consistent_read [(frame_A, 0), (frame_B, t_prev frame_A)]
         (Inr (Some (payload_A(''timestamp'' \<mapsto> PFloat (t_stamp frame_B)))))
   \<and> run_schedule [WriterStep, WriterStep, ReaderStep]
        (snapshot_stores frame_A 0) initial_payload
     = [Inr (Some [''timestamp'' \<mapsto> PFloat (t_stamp frame_A),
                   ''landmarks'' \<mapsto>
                     PLandmarks (landmarks_to_normalized_list (example_pose (- 1 / 4)))])]"
proof -
  let ?q = "payload_A(''timestamp'' \<mapsto> PFloat (t_stamp frame_B))"
  have r1: "run_schedule (replicate 7 WriterStep @ [ReaderStep])
     (snapshot_stores frame_A 0 @ snapshot_stores frame_B (t_prev frame_A)) initial_payload
     = [Inr (Some ?q)]"
    by (simp add: numeral_eq_Suc snapshot_stores_def frame_A_def frame_B_def Let_def
        payload_A_def apply_stores_def get_payload_def store_def initial_payload_def)
  have a: "?q \<noteq> apply_stores Map.empty (snapshot_stores frame_A 0)"
  proof
    assume "?q = apply_stores Map.empty (snapshot_stores frame_A 0)"
    from fun_cong[OF this, of "''timestamp''"] show False
      by (simp add: apply_stores_def snapshot_stores_def store_def Let_def frame_A_def
          frame_B_def)
  qed
  have b: "?q \<noteq> apply_stores Map.empty (snapshot_stores frame_B (t_prev frame_A))"
  proof
    assume "?q = apply_stores Map.empty (snapshot_stores frame_B (t_prev frame_A))"
    from fun_cong[OF this, of "''mid_hip_z''"] show False
      by (simp add: payload_A_def apply_stores_def snapshot_stores_def store_def Let_def
          frame_A_def frame_B_def compute_mid_hip_z_example)
  qed
  from a b have r2: "\<not> consistent_read [(frame_A, 0), (frame_B, t_prev frame_A)]
      (Inr (Some ?q))"
    by (simp add: consistent_read_def)
  have r3: "run_schedule [WriterStep, WriterStep, ReaderStep]
        (snapshot_stores frame_A 0) initial_payload
     = [Inr (Some [''timestamp'' \<mapsto> PFloat (t_stamp frame_A),
                   ''landmarks'' \<mapsto>
                     PLandmarks (landmarks_to_normalized_list (example_pose (- 1 / 4)))])]"
    by (simp add: snapshot_stores_def frame_A_def Let_def get_payload_def store_def
        initial_payload_def)
  from r1 r2 r3 show ?thesis by blast
qed

subsection \<open>C2: a failing send\<close>

text \<open>
  C2 as stated: a failing send is caught, the failing subscriber is removed from the
  registry, and the other deliveries complete. The broadcaster never changes
  \<open>CONNECTED\<close>: in a tick where the send to connection 2 raises, connections 1 and 3
  receive the message and the registry after the tick is still \<open>[1, 2, 3]\<close>.
\<close>

theorem C2_failed_subscriber_stays:
  "broadcast_tick example_dumps get_payload example_tick [1, 2, 3] =
     Inr \<lparr>serialized = [''msg''],
          dispatched = [(1, ''msg''), (2, ''msg''), (3, ''msg'')],
          delivered = [(1, ''msg''), (3, ''msg'')],
          slept = [7 / 300], connected_after = [1, 2, 3]\<rparr>
   \<and> send_result example_tick 2 = AwaitRaises"
  using example_tick_result by (simp add: example_tick_def)

text \<open>
  C2, amended. In a tick that has a payload to send, whatever the sends do: the tick
  returns normally, every connection whose send does not fail receives the serialized
  payload, and the registry is left as it was (the failing connection stays in it).
  A connection leaves the registry only through the \<open>finally\<close> block of its own
  \<open>ws_handler\<close>. A loop whose reads of the payload do not raise returns a result for
  every tick of its script: no send failure ends it.
\<close>

theorem C2_send_failure_isolated:
  assumes "get_payload_fn (mailbox inp) = Inr (Some p)"
    and "\<not> landmarks_is_None p"
    and "\<forall>x \<in> set script. \<exists>r. get_payload_fn (mailbox (snd (snd x))) = Inr r"
  shows "(\<exists>res. broadcast_tick dumps get_payload_fn inp CONNECTED = Inr res \<and>
            delivered res =
              map (\<lambda>w. (w, dumps p)) (filter (\<lambda>w. send_result inp w = Sent) CONNECTED) \<and>
            connected_after res = CONNECTED)
       \<and> w \<notin> set (ws_handler_event CONNECTED (Disconnect w))
       \<and> (\<exists>rs. broadcast_loop dumps get_payload_fn script CONNECTED = Inr rs)"
proof -
  from tick_send[of get_payload_fn inp p dumps CONNECTED] assms(1,2)
  have "\<exists>res. broadcast_tick dumps get_payload_fn inp CONNECTED = Inr res \<and>
            delivered res =
              map (\<lambda>w. (w, dumps p)) (filter (\<lambda>w. send_result inp w = Sent) CONNECTED) \<and>
            connected_after res = CONNECTED"
    by blast
  moreover have "w \<notin> set (ws_handler_event CONNECTED (Disconnect w))" by simp
  moreover from broadcast_loop_total[of script get_payload_fn dumps CONNECTED] assms(3)
  have "\<exists>rs. broadcast_loop dumps get_payload_fn script CONNECTED = Inr rs" by blast
  ultimately show ?thesis by blast
qed

theorem C2_send_failure_isolated_witness:
  "get_payload (mailbox example_tick) = Inr (Some payload_A)
   \<and> \<not> landmarks_is_None payload_A
   \<and> list_all (\<lambda>x. \<exists>r. get_payload (mailbox (snd (snd x))) = Inr r)
         [(False, [], example_tick), (False, [Disconnect 2], example_tick)]
   \<and> (\<exists>res. broadcast_tick example_dumps get_payload example_tick [1, 2, 3] = Inr res \<and>
         delivered res = [(1, ''msg''), (3, ''msg'')] \<and> connected_after res = [1, 2, 3])
   \<and> 2 \<notin> set (ws_handler_event [1, 2, 3] (Disconnect 2))
   \<and> (\<exists>rs. broadcast_loop example_dumps get_payload
         [(False, [], example_tick), (False, [Disconnect 2], example_tick)] [1, 2, 3] = Inr rs)"
proof -
  have h1: "get_payload (mailbox example_tick) = Inr (Some payload_A)"
    by (simp add: example_tick_def get_payload_A)
  have h2: "\<not> landmarks_is_None payload_A" by (rule payload_A_not_None)
  have h3: "\<forall>x \<in> set [(False, [], example_tick), (False, [Disconnect 2], example_tick)].
        \<exists>r. get_payload (mailbox (snd (snd x))) = Inr r"
    by (simp add: h1)
  from C2_send_failure_isolated[OF h1 h2 h3, of example_dumps "[1, 2, 3]" 2] h1 h2 h3
  show ?thesis by (simp add: example_dumps_def example_tick_def)
qed

subsection \<open>C3: what a tick sends\<close>



subsection \<open>C4: pacing\<close>

text \<open>
  C4 as stated: both loops sleep \<open>max(0, target - elapsed)\<close> and do not sleep at all
  after an overrun. The broadcaster's \<open>else\<close> branch sleeps one millisecond: after a
  tick of 100 ms, over the budget of 1/30 s, the producer makes no call of sleep while
  the broadcaster sleeps 0.001 s.
\<close>

theorem C4_broadcast_sleeps_on_overrun:
  "FRAME_DELAY \<le> 1 / 10
   \<and> pace_camera (1 / 10) = []
   \<and> pace_broadcast (1 / 10) = [1 / 1000]
   \<and> sum_list (pace_broadcast (1 / 10)) \<noteq> max 0 (FRAME_DELAY - 1 / 10)"
  by (simp add: pace_camera_def pace_broadcast_def Let_def FRAME_DELAY_def TARGET_FPS_def)

text \<open>
  C4, amended. Both loops pace themselves by elapsed-time compensation against
  \<open>FRAME_DELAY\<close>, the elapsed time being taken from the start of the pass or tick. A
  producer pass that runs to its end sleeps \<open>max(0, FRAME_DELAY - elapsed)\<close>: once for
  \<open>FRAME_DELAY - elapsed\<close> when it was within budget, not at all after an overrun. A
  broadcaster tick ends with a sleep of \<open>FRAME_DELAY - elapsed\<close> when it was within
  budget, as the producer does, and of 0.001 s after an overrun; an idle tick has slept
  0.001 s before that.
\<close>

theorem C4_pacing:
  assumes "ret i" and "draw_completes i" and "get_payload_fn (mailbox inp) = Inr r"
  shows "sleeps (state_of (camera_iter i s)) =
           sleeps s @ (if t_end i - t0 i < FRAME_DELAY
                       then [FRAME_DELAY - (t_end i - t0 i)] else [])
       \<and> sum_list (sleeps (state_of (camera_iter i s))) =
           sum_list (sleeps s) + max 0 (FRAME_DELAY - (t_end i - t0 i))
       \<and> (\<exists>res. broadcast_tick dumps get_payload_fn inp CONNECTED = Inr res \<and>
             slept res =
               (case r of None \<Rightarrow> [1 / 1000]
                | Some p \<Rightarrow> if landmarks_is_None p then [1 / 1000] else [])
               @ (if t_now inp - t_start inp < FRAME_DELAY
                  then [FRAME_DELAY - (t_now inp - t_start inp)] else [1 / 1000]))"
proof -
  note a = camera_iter_sleeps[OF assms(1,2), of s]
  from a have b: "sum_list (sleeps (state_of (camera_iter i s))) =
           sum_list (sleeps s) + max 0 (FRAME_DELAY - (t_end i - t0 i))"
    by simp
  from broadcast_tick_slept[of get_payload_fn inp r dumps CONNECTED] assms(3) a b
  show ?thesis by blast
qed

theorem C4_pacing_witness:
  "ret frame_A \<and> draw_completes frame_A \<and> ret frame_slow \<and> draw_completes frame_slow
   \<and> get_payload (mailbox example_tick) = Inr (Some payload_A)
   \<and> get_payload (mailbox slow_tick) = Inr (Some payload_A)
   \<and> get_payload (mailbox idle_tick) = Inr None
   \<and> sleeps (state_of (camera_iter frame_A (init_state initial_payload False 0))) = [1 / 75]
   \<and> sleeps (state_of (camera_iter frame_slow (init_state initial_payload False 0))) = []
   \<and> (\<exists>res. broadcast_tick example_dumps get_payload example_tick [1, 2, 3] = Inr res \<and>
         slept res = [7 / 300])
   \<and> (\<exists>res. broadcast_tick example_dumps get_payload slow_tick [1, 2, 3] = Inr res \<and>
         slept res = [1 / 1000])
   \<and> (\<exists>res. broadcast_tick example_dumps get_payload idle_tick [1, 2, 3] = Inr res \<and>
         slept res = [1 / 1000, 7 / 300])"
proof -
  have f: "ret frame_A" "draw_completes frame_A" "ret frame_slow" "draw_completes frame_slow"
    by (simp_all add: frame_A_def frame_slow_def draw_completes_def example_pose_def)
  have g1: "get_payload (mailbox example_tick) = Inr (Some payload_A)"
    and g2: "get_payload (mailbox slow_tick) = Inr (Some payload_A)"
    and g3: "get_payload (mailbox idle_tick) = Inr None"
    by (simp_all add: example_tick_def slow_tick_def get_payload_A)
       (simp add: idle_tick_def get_payload_def initial_payload_def)
  have t: "t_end frame_A - t0 frame_A = 1 / 50" "t_end frame_slow - t0 frame_slow = 1 / 10"
    "t_now example_tick - t_start example_tick = 1 / 100"
    "t_now slow_tick - t_start slow_tick = 1 / 10"
    "t_now idle_tick - t_start idle_tick = 1 / 100"
    by (simp_all add: frame_A_def frame_slow_def example_tick_def slow_tick_def idle_tick_def)
  have s0: "sleeps (init_state initial_payload False 0) = []"
    by (simp add: init_state_def)
  from C4_pacing[where i = frame_A and s = "init_state initial_payload False 0"
          and get_payload_fn = get_payload and inp = example_tick and r = "Some payload_A"
          and dumps = example_dumps and CONNECTED = "[1, 2, 3]"]
       C4_pacing[where i = frame_slow and s = "init_state initial_payload False 0"
          and get_payload_fn = get_payload and inp = slow_tick and r = "Some payload_A"
          and dumps = example_dumps and CONNECTED = "[1, 2, 3]"]
       C4_pacing[where i = frame_A and s = "init_state initial_payload False 0"
          and get_payload_fn = get_payload and inp = idle_tick and r = None
          and dumps = example_dumps and CONNECTED = "[1, 2, 3]"]
       f g1 g2 g3 payload_A_not_None
  show ?thesis
    by (simp add: t s0 FRAME_DELAY_def TARGET_FPS_def)
qed

subsection \<open>C5: the last write wins\<close>

text \<open>
  C5. A write replaces what the dict holds and nothing is queued. After the stores of a
  pass A and then of a pass B, a read gives what it gives after the stores of B alone;
  when B has a detection the read is the dict holding the six fields of B, and when B
  has none the read is empty. In neither case does it return the content of A.
\<close>

theorem C5_last_write_wins:
  "get_payload (apply_stores (apply_stores p (snapshot_stores a pa)) (snapshot_stores b pb))
     = get_payload (apply_stores p (snapshot_stores b pb))
   \<and> (pose_landmarks b = Some lms \<longrightarrow>
        get_payload (apply_stores (apply_stores p (snapshot_stores a pa)) (snapshot_stores b pb))
          = Inr (Some (p(''timestamp'' \<mapsto> PFloat (t_stamp b),
                         ''landmarks'' \<mapsto> PLandmarks (landmarks_to_normalized_list lms),
                         ''image_w'' \<mapsto> PInt (frame_w b),
                         ''image_h'' \<mapsto> PInt (frame_h b),
                         ''mid_hip_z'' \<mapsto> PFloat (compute_mid_hip_z lms),
                         ''fps'' \<mapsto> PFloat (1 / max (1 / 10000) (t_fps b - pb))))))
   \<and> (pose_landmarks b = None \<longrightarrow>
        get_payload (apply_stores (apply_stores p (snapshot_stores a pa)) (snapshot_stores b pb))
          = Inr None)"
  by (auto simp: apply_stores_def snapshot_stores_def store_def get_payload_def Let_def
      fun_upd_def split: option.splits)

theorem C5_last_write_wins_witness:
  "pose_landmarks frame_B = Some (example_pose (- 1 / 2))
   \<and> get_payload (apply_stores (apply_stores initial_payload (snapshot_stores frame_A 0))
        (snapshot_stores frame_B (1 / 50)))
      = Inr (Some (initial_payload(''timestamp'' \<mapsto> PFloat (1 / 25),
               ''landmarks'' \<mapsto> PLandmarks (landmarks_to_normalized_list (example_pose (- 1 / 2))),
               ''image_w'' \<mapsto> PInt 640,
               ''image_h'' \<mapsto> PInt 480,
               ''mid_hip_z'' \<mapsto> PFloat (- 1 / 2),
               ''fps'' \<mapsto> PFloat 50)))
   \<and> pose_landmarks frame_none = None
   \<and> get_payload (apply_stores (apply_stores initial_payload (snapshot_stores frame_A 0))
        (snapshot_stores frame_none (1 / 50))) = Inr None"
  using C5_last_write_wins[of initial_payload frame_A 0 frame_B "1 / 50" "example_pose (- 1 / 2)",
          THEN conjunct2]
        C5_last_write_wins[of initial_payload frame_A 0 frame_none "1 / 50" "[]", THEN conjunct2]
  by (simp add: frame_B_def frame_none_def compute_mid_hip_z_example)

subsection \<open>C6: reading does not consume\<close>

text \<open>
  C6. A read leaves the dict as it was, so any number of consecutive reads with no write
  in between all return the result of the first and leave the dict unchanged.
\<close>

theorem C6_read_is_peek:
  "snd (get_payload_st p) = p
   \<and> fst (reads n p) = replicate n (get_payload p)
   \<and> snd (reads n p) = p"
  by (induction n) (auto simp: get_payload_st_def split: prod.splits)

theorem C6_read_is_peek_witness:
  "snd (get_payload_st payload_A) = payload_A
   \<and> fst (reads 3 payload_A) = [Inr (Some payload_A), Inr (Some payload_A), Inr (Some payload_A)]
   \<and> snd (reads 3 payload_A) = payload_A"
  using C6_read_is_peek[of payload_A 3] by (simp add: numeral_eq_Suc get_payload_A)

subsection \<open>C7: the derived scalar\<close>

text \<open>
  C7. For every landmark sequence \<open>compute_mid_hip_z\<close> returns a number and never raises:
  the mean of the z components of the landmarks at indices 23 and 24 when the sequence
  has at least 25 elements, and 0.0 when it is shorter.
\<close>

theorem C7_compute_mid_hip_z:
  "compute_mid_hip_z landmarks =
     (if 25 \<le> length landmarks
      then (lm_z (landmarks ! 23) + lm_z (landmarks ! 24)) / 2 else 0)"
  by (simp add: compute_mid_hip_z_def mid_hip_z_try_def getitem_def Let_def)

theorem C7_compute_mid_hip_z_witness:
  "25 \<le> length (example_pose (- 1 / 4))
   \<and> compute_mid_hip_z (example_pose (- 1 / 4)) = - 1 / 4
   \<and> \<not> 25 \<le> length (take 24 (example_pose (- 1 / 4)))
   \<and> compute_mid_hip_z (take 24 (example_pose (- 1 / 4))) = 0"
  using C7_compute_mid_hip_z[of "example_pose (- 1 / 4)"]
        C7_compute_mid_hip_z[of "take 24 (example_pose (- 1 / 4))"]
  by (simp add: example_pose_def)

subsection \<open>C8: a failed device read\<close>

text \<open>
  C8. A pass whose \<open>cap.read()\<close> fails leaves the loop with the state untouched, so it
  stores nothing in the dict. A pass whose read succeeds writes the dict exactly once:
  with a detection the dict becomes the old one with the six fields of that pass stored,
  without one the old one with \<open>landmarks\<close> set to None, and in both cases one update
  block, holding just these stores, has run. When the passes before the failing one all
  run to their end, \<open>camera_worker\<close> returns without an exception, its final state is
  the state those passes left with the camera released and the stop event set, and it
  has run one update block per pass that succeeded. When the camera cannot be opened it
  returns at once with the stop event set and nothing written.
\<close>

theorem C8_read_failure_ends_producer:
  assumes "\<not> ret bad" and "\<not> stop_req bad" and "\<not> stop0"
    and "list_all iter_continues pre" and "ret ok"
  shows "camera_iter bad s = Break s
       \<and> (pose_landmarks ok = Some lms \<longrightarrow>
            last_payload (state_of (camera_iter ok s)) =
              (last_payload s)(''timestamp'' \<mapsto> PFloat (t_stamp ok),
                 ''landmarks'' \<mapsto> PLandmarks (landmarks_to_normalized_list lms),
                 ''image_w'' \<mapsto> PInt (frame_w ok),
                 ''image_h'' \<mapsto> PInt (frame_h ok),
                 ''mid_hip_z'' \<mapsto> PFloat (compute_mid_hip_z lms),
                 ''fps'' \<mapsto> PFloat (1 / max (1 / 10000) (t_fps ok - prev s))) \<and>
            updates (state_of (camera_iter ok s)) =
              updates s @ [[(''timestamp'', PFloat (t_stamp ok)),
                 (''landmarks'', PLandmarks (landmarks_to_normalized_list lms)),
                 (''image_w'', PInt (frame_w ok)),
                 (''image_h'', PInt (frame_h ok)),
                 (''mid_hip_z'', PFloat (compute_mid_hip_z lms)),
                 (''fps'', PFloat (1 / max (1 / 10000) (t_fps ok - prev s)))]])
       \<and> (pose_landmarks ok = None \<longrightarrow>
            last_payload (state_of (camera_iter ok s)) =
              (last_payload s)(''landmarks'' \<mapsto> PNone) \<and>
            updates (state_of (camera_iter ok s)) = updates s @ [[(''landmarks'', PNone)]])
       \<and> camera_worker pinit stop0 True t (pre @ bad # rest) =
           Some (None, (run_passes pre (init_state pinit stop0 t))
                         \<lparr>released := True, stop_event := True\<rparr>)
       \<and> length (updates (run_passes pre (init_state pinit stop0 t))) = length pre
       \<and> camera_worker pinit stop0 False t script =
           Some (None, (init_state pinit stop0 t)\<lparr>stop_event := True\<rparr>)"
proof -
  have a: "camera_iter bad s = Break s"
    using assms(1) by (simp add: camera_iter_def)
  note b = camera_iter_detection[OF assms(5), of lms s]
  note c = camera_iter_no_detection[OF assms(5), of s]
  have ns: "\<not> stop_event (init_state pinit stop0 t)"
    using assms(3) by (simp add: init_state_def)
  note pre = camera_loop_prefix[OF ns assms(4), of "bad # rest"]
  have "camera_loop (bad # rest) (run_passes pre (init_state pinit stop0 t))
          = Some (None, run_passes pre (init_state pinit stop0 t))"
    using pre assms(1,2) by (simp add: camera_iter_def)
  with pre have d: "camera_worker pinit stop0 True t (pre @ bad # rest) =
           Some (None, (run_passes pre (init_state pinit stop0 t))
                         \<lparr>released := True, stop_event := True\<rparr>)"
    by (simp add: camera_worker_def)
  have e: "length (updates (run_passes pre (init_state pinit stop0 t))) = length pre"
    using pre by (simp add: init_state_def)
  have f: "camera_worker pinit stop0 False t script =
           Some (None, (init_state pinit stop0 t)\<lparr>stop_event := True\<rparr>)"
    by (simp add: camera_worker_def)
  from a b c d e f show ?thesis by blast
qed

theorem C8_read_failure_ends_producer_witness:
  "\<not> ret frame_fail \<and> \<not> stop_req frame_fail \<and> list_all iter_continues [frame_A, frame_none]
   \<and> ret frame_A \<and> pose_landmarks frame_A = Some (example_pose (- 1 / 4))
   \<and> camera_iter frame_fail state_A = Break state_A
   \<and> last_payload (state_of (camera_iter frame_A (init_state initial_payload False 0))) =
       initial_payload(''timestamp'' \<mapsto> PFloat (1 / 100),
         ''landmarks'' \<mapsto> PLandmarks (landmarks_to_normalized_list (example_pose (- 1 / 4))),
         ''image_w'' \<mapsto> PInt 640, ''image_h'' \<mapsto> PInt 480,
         ''mid_hip_z'' \<mapsto> PFloat (- 1 / 4), ''fps'' \<mapsto> PFloat 100)
   \<and> map_option fst (camera_worker initial_payload False True 0
        [frame_A, frame_none, frame_fail, frame_B]) = Some None
   \<and> map_option (last_payload \<circ> snd) (camera_worker initial_payload False True 0
        [frame_A, frame_none, frame_fail, frame_B]) = Some (payload_A(''landmarks'' \<mapsto> PNone))
   \<and> map_option (stop_event \<circ> snd) (camera_worker initial_payload False True 0
        [frame_A, frame_none, frame_fail, frame_B]) = Some True
   \<and> map_option (length \<circ> updates \<circ> snd) (camera_worker initial_payload False True 0
        [frame_A, frame_none, frame_fail, frame_B]) = Some 2
   \<and> map_option (stop_event \<circ> snd) (camera_worker initial_payload False False 0 [frame_A])
       = Some True"
proof -
  have h1: "\<not> ret frame_fail" and h2: "\<not> stop_req frame_fail"
    by (simp_all add: frame_fail_def)
  have h3: "\<not> False" by simp
  have h4: "list_all iter_continues [frame_A, frame_none]"
    by (simp add: iter_continues_def draw_completes_def frame_A_def frame_none_def
        example_pose_def)
  have h5: "ret frame_A" and h6: "pose_landmarks frame_A = Some (example_pose (- 1 / 4))"
    by (simp_all add: frame_A_def)
  have v: "t_stamp frame_A = 1 / 100" "frame_w frame_A = 640" "frame_h frame_A = 480"
    "t_fps frame_A = 1 / 100"
    by (simp_all add: frame_A_def)
  have i0: "prev (init_state initial_payload False 0) = 0"
    "last_payload (init_state initial_payload False 0) = initial_payload"
    by (simp_all add: init_state_def)
  have r: "last_payload (run_passes [frame_A, frame_none] (init_state initial_payload False 0))
            = payload_A(''landmarks'' \<mapsto> PNone)"
  proof -
    have "run_passes [frame_A, frame_none] (init_state initial_payload False 0)
            = state_of (camera_iter frame_none state_A)"
      by (simp add: run_passes_def state_A_def)
    moreover have "ret frame_none" "pose_landmarks frame_none = None"
      by (simp_all add: frame_none_def)
    ultimately show ?thesis
      using camera_iter_no_detection(1)[of frame_none state_A]
      by (simp add: last_payload_state_A)
  qed
  from C8_read_failure_ends_producer[OF h1 h2 h3 h4 h5,
        where s = state_A and pinit = initial_payload and t = 0 and rest = "[frame_B]"
          and script = "[frame_A]" and lms = "example_pose (- 1 / 4)"]
       C8_read_failure_ends_producer[OF h1 h2 h3 h4 h5,
        where s = "init_state initial_payload False 0" and pinit = initial_payload and t = 0
          and rest = "[frame_B]" and script = "[frame_A]" and lms = "example_pose (- 1 / 4)"]
       h1 h2 h4 h5 h6
  show ?thesis
    by (simp add: r v i0 compute_mid_hip_z_example)
qed

subsection \<open>C9: a pass without detection\<close>

text \<open>
  C9. A pass whose read succeeds and whose pose estimation finds nothing stores None
  under \<open>landmarks\<close> and nothing else: every other key of the dict, \<open>timestamp\<close>,
  \<open>image_w\<close>, \<open>image_h\<close>, \<open>mid_hip_z\<close> and \<open>fps\<close> among them, keeps the value it had,
  which is the one stored by the last pass with a detection.
\<close>

theorem C9_no_detection_keeps_other_fields:
  assumes "ret i" and "pose_landmarks i = None"
  shows "last_payload (state_of (camera_iter i s)) = (last_payload s)(''landmarks'' \<mapsto> PNone)
       \<and> last_payload (state_of (camera_iter i s)) ''landmarks'' = Some PNone
       \<and> (\<forall>k. k \<noteq> ''landmarks'' \<longrightarrow>
            last_payload (state_of (camera_iter i s)) k = last_payload s k)
       \<and> updates (state_of (camera_iter i s)) = updates s @ [[(''landmarks'', PNone)]]"
  using assms
  by (simp add: camera_iter_def Let_def snapshot_stores_def apply_stores_def store_def)

theorem C9_no_detection_keeps_other_fields_witness:
  "ret frame_none \<and> pose_landmarks frame_none = None
   \<and> last_payload (state_of (camera_iter frame_none state_A)) ''landmarks'' = Some PNone
   \<and> last_payload (state_of (camera_iter frame_none state_A)) ''timestamp''
       = Some (PFloat (1 / 100))
   \<and> last_payload (state_of (camera_iter frame_none state_A)) ''image_w'' = Some (PInt 640)
   \<and> last_payload (state_of (camera_iter frame_none state_A)) ''image_h'' = Some (PInt 480)
   \<and> last_payload (state_of (camera_iter frame_none state_A)) ''mid_hip_z''
       = Some (PFloat (- 1 / 4))
   \<and> last_payload (state_of (camera_iter frame_none state_A)) ''fps'' = Some (PFloat 100)"
proof -
  have h1: "ret frame_none" and h2: "pose_landmarks frame_none = None"
    by (simp_all add: frame_none_def)
  have p: "payload_A ''timestamp'' = Some (PFloat (1 / 100))"
    "payload_A ''image_w'' = Some (PInt 640)" "payload_A ''image_h'' = Some (PInt 480)"
    "payload_A ''mid_hip_z'' = Some (PFloat (- 1 / 4))" "payload_A ''fps'' = Some (PFloat 100)"
    by (simp_all add: payload_A_def apply_stores_def snapshot_stores_def frame_A_def store_def
        Let_def compute_mid_hip_z_example)
  from C9_no_detection_keeps_other_fields[OF h1 h2, of state_A] h1 h2 p
  show ?thesis by (simp add: last_payload_state_A)
qed

subsection \<open>C10: when the read is empty\<close>

text \<open>
  C10. On a dict that has the key \<open>landmarks\<close>, \<open>get_payload\<close> returns None exactly when
  the value stored under it is None, and otherwise a copy of the whole dict. The dict
  as \<open>main\<close> creates it and a dict on which a pass without detection has run both read
  as None, so the broadcaster cannot tell them apart.
\<close>

theorem C10_read_none_iff_landmarks_none:
  assumes "p ''landmarks'' = Some v"
  shows "(get_payload p = Inr None \<longleftrightarrow> v = PNone)
       \<and> (v \<noteq> PNone \<longrightarrow> get_payload p = Inr (Some p))
       \<and> get_payload initial_payload = Inr None
       \<and> (pose_landmarks i = None \<longrightarrow>
            get_payload (apply_stores q (snapshot_stores i pv)) = get_payload initial_payload)"
  using assms
  by (simp add: get_payload_def initial_payload_def apply_stores_def snapshot_stores_def
      store_def)

theorem C10_read_none_iff_landmarks_none_witness:
  "payload_A ''landmarks'' =
     Some (PLandmarks (landmarks_to_normalized_list (example_pose (- 1 / 4))))
   \<and> get_payload payload_A = Inr (Some payload_A)
   \<and> initial_payload ''landmarks'' = Some PNone
   \<and> get_payload initial_payload = Inr None
   \<and> pose_landmarks frame_none = None
   \<and> get_payload (apply_stores payload_A (snapshot_stores frame_none (1 / 50))) = Inr None"
proof -
  have h2: "initial_payload ''landmarks'' = Some PNone"
    by (simp add: initial_payload_def)
  have h3: "pose_landmarks frame_none = None" by (simp add: frame_none_def)
  from C10_read_none_iff_landmarks_none[where p = payload_A
          and v = "PLandmarks (landmarks_to_normalized_list (example_pose (- 1 / 4)))"
          and i = frame_none and q = payload_A and pv = "1 / 50"]
       C10_read_none_iff_landmarks_none[where p = initial_payload and v = PNone
          and i = frame_none and q = payload_A and pv = "1 / 50"]
       payload_A_landmarks h2 h3
  show ?thesis by simp
qed

end
